theory Spec2Isabelle
  imports Main
begin

section \<open>JavaScript values\<close>

text \<open>
  The handlers read dynamically typed data: cookies, the decoded token and the fields of
  the request body. A value is one of JavaScript's primitives or an object, an object
  being the list of its own properties in the order they were written (a later entry for
  a key overrides an earlier one, as in \<^verbatim>\<open>JSON.parse\<close>). Numbers are the integers; no
  handler computes with them.
\<close>

datatype jsval =
    JUndefined
  | JNull
  | JBool bool
  | JNum int
  | JStr string
  | JObj "(string \<times> jsval) list"

text \<open>A thrown value: its name and what \<^verbatim>\<open>JSON.stringify\<close> makes of it (\<open>None\<close> when
  the result is \<^verbatim>\<open>undefined\<close>).\<close>

datatype js_error = JsError (err_name: string) (err_json: "string option")

definition TypeError :: js_error where
  "TypeError = JsError ''TypeError'' (Some ''{}'')"

text \<open>\<^verbatim>\<open>!v\<close> is \<open>\<not> truthy v\<close>.\<close>

fun truthy :: "jsval \<Rightarrow> bool" where
  "truthy JUndefined = False"
| "truthy JNull = False"
| "truthy (JBool b) = b"
| "truthy (JNum n) = (n \<noteq> 0)"
| "truthy (JStr s) = (s \<noteq> [])"
| "truthy (JObj kvs) = True"

text \<open>\<^verbatim>\<open>v.k\<close>: reading a property of \<^verbatim>\<open>undefined\<close> or \<^verbatim>\<open>null\<close> throws a TypeError; an
  object yields the property or \<^verbatim>\<open>undefined\<close>; the other primitives have none of the
  properties read here (\<^verbatim>\<open>token\<close>, \<^verbatim>\<open>role\<close>, \<^verbatim>\<open>subscription\<close>, \<^verbatim>\<open>status\<close>).\<close>

fun get_prop :: "jsval \<Rightarrow> string \<Rightarrow> js_error + jsval" where
  "get_prop JUndefined k = Inl TypeError"
| "get_prop JNull k = Inl TypeError"
| "get_prop (JObj kvs) k = Inr (case map_of (rev kvs) k of None \<Rightarrow> JUndefined | Some v \<Rightarrow> v)"
| "get_prop (JBool b) k = Inr JUndefined"
| "get_prop (JNum n) k = Inr JUndefined"
| "get_prop (JStr s) k = Inr JUndefined"

text \<open>\<^verbatim>\<open>Array.prototype.includes\<close> compares with SameValueZero: primitives by value,
  objects by identity. The value looked for is read out of the decoded token, so an object
  there is never the same object as an element of the array.\<close>

fun same_value_zero :: "jsval \<Rightarrow> jsval \<Rightarrow> bool" where
  "same_value_zero (JObj kvs) v = False"
| "same_value_zero u (JObj kvs) = False"
| "same_value_zero u v = (u = v)"

definition array_includes :: "jsval list \<Rightarrow> jsval \<Rightarrow> bool" where
  "array_includes xs v = list_ex (\<lambda>x. same_value_zero x v) xs"

fun is_object :: "jsval \<Rightarrow> bool" where
  "is_object (JObj kvs) = True"
| "is_object v = False"

fun nullish :: "jsval \<Rightarrow> bool" where
  "nullish JUndefined = True"
| "nullish JNull = True"
| "nullish v = False"

section \<open>Requests, errors and outcomes\<close>

text \<open>Modelled from the spec: the class \<^verbatim>\<open>ApiError\<close> (utils/ApiError.js is not in the
  source). Errors are represented uniformly as (message, statusCode);
  \<open>ApiError m c\<close> is \<^verbatim>\<open>new ApiError(m, c)\<close>.\<close>

datatype api_error = ApiError (message: string) (statusCode: int)

record asset =
  public_id :: "string option"
  secure_url :: "string option"

text \<open>An embedded lecture; the field \<open>lecture\<close> is its asset reference, \<open>lecture_id\<close>
  its \<^verbatim>\<open>_id\<close>.\<close>

record lecture_doc =
  lecture_id :: string
  lecture_title :: jsval
  lecture_description :: jsval
  lecture :: asset

record course_doc =
  course_id :: string
  title :: jsval
  description :: jsval
  category :: jsval
  createdBy :: jsval
  thumbnail :: asset
  lectures :: "lecture_doc list"
  numberOfLectures :: int

text \<open>\<^verbatim>\<open>req.body\<close>: the four text fields are \<open>JUndefined\<close> when the body does not carry
  them; the other paths of a Course are \<open>None\<close> when it does not.\<close>

record body =
  body_title :: jsval
  body_description :: jsval
  body_category :: jsval
  body_createdBy :: jsval
  body_thumbnail :: "asset option"
  body_lectures :: "lecture_doc list option"
  body_numberOfLectures :: "int option"

record upload_file =
  path :: string
  filename :: string

record request =
  cookies :: jsval
  user :: jsval
  body :: body
  params_id :: string
  query_courseId :: "string option"
  query_lectureId :: "string option"
  req_file :: "upload_file option"

datatype payload = No_payload | With_course course_doc

datatype response = Response (res_status: int) (res_success: bool) (res_message: string) (res_payload: payload)

text \<open>How the body of an async handler ends: \<^verbatim>\<open>next()\<close>, \<^verbatim>\<open>next(error)\<close>, a response
  sent, or a rejected promise (something was thrown and not caught in the body).\<close>

datatype outcome =
    Next
  | Next_error api_error
  | Responded response
  | Rejected js_error

section \<open>auth.middleware.js\<close>

text \<open>\<open>jwt_verify\<close> is \<^verbatim>\<open>jwt.verify(_, process.env.JWT_SECRET)\<close>: it returns the decoded
  payload or throws.\<close>

definition isLoggedIn :: "(jsval \<Rightarrow> js_error + jsval) \<Rightarrow> request \<Rightarrow> outcome \<times> request" where
  "isLoggedIn jwt_verify req =
    (case get_prop (cookies req) ''token'' of
       Inl e \<Rightarrow> (Rejected e, req)
     | Inr token \<Rightarrow>
        if \<not> truthy token
        then (Next_error (ApiError ''Unauthorized, please login to continue'' 401), req)
        else (case jwt_verify token of
                Inl e \<Rightarrow> (Rejected e, req)
              | Inr decoded \<Rightarrow>
                 if \<not> truthy decoded
                 then (Next_error (ApiError ''Unauthorized, please login to continue'' 401), req)
                 else (Next, req\<lparr>user := decoded\<rparr>)))"

definition authorizeRoles :: "jsval list \<Rightarrow> request \<Rightarrow> outcome" where
  "authorizeRoles roles req =
    (case get_prop (user req) ''role'' of
       Inl e \<Rightarrow> Rejected e
     | Inr role \<Rightarrow>
        if \<not> array_includes roles role
        then Next_error (ApiError ''You do not have permission to view this route'' 403)
        else Next)"

text \<open>\<^verbatim>\<open>a && b\<close> evaluates \<^verbatim>\<open>b\<close> only when \<^verbatim>\<open>a\<close> is true.\<close>

definition authorizeSubscribers :: "request \<Rightarrow> outcome" where
  "authorizeSubscribers req =
    (case get_prop (user req) ''role'' of
       Inl e \<Rightarrow> Rejected e
     | Inr role \<Rightarrow>
        if role \<noteq> JStr ''ADMIN''
        then (case get_prop (user req) ''subscription'' of
                Inl e \<Rightarrow> Rejected e
              | Inr subscription \<Rightarrow>
                 (case get_prop subscription ''status'' of
                    Inl e \<Rightarrow> Rejected e
                  | Inr status \<Rightarrow>
                     if status \<noteq> JStr ''active''
                     then Next_error (ApiError ''Please subscribe to access this route.'' 403)
                     else Next))
        else Next)"

section \<open>The collaborators of the course controller\<close>

text \<open>
  What the handlers change: the Course collection of the datastore, the files of the
  staging directory \<^verbatim>\<open>uploads/\<close> (regular files, by name), and the destroy calls issued
  to the remote asset host so far (public id and resource type).
\<close>

record world =
  courses :: "course_doc list"
  uploads :: "string list"
  destroy_calls :: "(string option \<times> string) list"

record upload_options =
  folder :: string
  chunk_size :: "nat option"
  resource_type :: "string option"

text \<open>
  What the handlers call and the source does not define. \<open>cloud_upload\<close> and
  \<open>cloud_destroy\<close> are the asset host (an upload resolves with a result, of which the code
  reads \<^verbatim>\<open>public_id\<close> and \<^verbatim>\<open>secure_url\<close>, or throws; a destroy resolves or throws).
  The Course schema is not in the source: \<open>schema_validate\<close> are its validators, run when a
  document is created or saved, \<open>update_validate\<close> those run on an update,
  \<open>default_numberOfLectures\<close> the default of the lecture count. \<open>new_object_id\<close> is the
  identifier the datastore driver generates for a new document or sub-document,
  \<open>valid_object_id\<close> its test of an identifier's format.
\<close>

record env =
  cloud_upload :: "string \<Rightarrow> upload_options \<Rightarrow> js_error + asset option"
  cloud_destroy :: "string option \<Rightarrow> string \<Rightarrow> js_error option"
  schema_validate :: "course_doc \<Rightarrow> js_error option"
  update_validate :: "body \<Rightarrow> js_error option"
  default_numberOfLectures :: int
  new_object_id :: "world \<Rightarrow> string"
  valid_object_id :: "string \<Rightarrow> bool"

definition CastError :: js_error where
  "CastError = JsError ''CastError'' (Some ''{}'')"

definition find_course :: "string \<Rightarrow> course_doc list \<Rightarrow> course_doc option" where
  "find_course i cs = find (\<lambda>c. course_id c = i) cs"

text \<open>The stored document with the identifier of \<open>doc\<close> is replaced by \<open>doc\<close>.\<close>

fun replace_course :: "course_doc \<Rightarrow> course_doc list \<Rightarrow> course_doc list" where
  "replace_course doc [] = []"
| "replace_course doc (c # cs) =
     (if course_id c = course_id doc then doc # cs else c # replace_course doc cs)"

text \<open>\<^verbatim>\<open>Course.findById(id)\<close>: the document, \<^verbatim>\<open>null\<close>, or a CastError for an identifier
  that is none.\<close>

definition Course_findById :: "env \<Rightarrow> world \<Rightarrow> string \<Rightarrow> js_error + course_doc option" where
  "Course_findById env w i =
    (case find_course i (courses w) of
       Some c \<Rightarrow> Inr (Some c)
     | None \<Rightarrow> if valid_object_id env i then Inr None else Inl CastError)"

definition empty_asset :: asset where
  "empty_asset = \<lparr>public_id = None, secure_url = None\<rparr>"

text \<open>The document \<^verbatim>\<open>Course.create\<close> builds from the four fields: no thumbnail, no
  lectures, the default count.\<close>

definition new_course :: "env \<Rightarrow> world \<Rightarrow> jsval \<Rightarrow> jsval \<Rightarrow> jsval \<Rightarrow> jsval \<Rightarrow> course_doc" where
  "new_course env w t d c cb =
    \<lparr>course_id = new_object_id env w, title = t, description = d, category = c,
     createdBy = cb, thumbnail = empty_asset, lectures = [],
     numberOfLectures = default_numberOfLectures env\<rparr>"

text \<open>\<^verbatim>\<open>Course.create\<close> validates the new document and inserts it; it resolves with the
  document (never with a falsy value, the case the handler also tests for).\<close>

definition Course_create ::
  "env \<Rightarrow> world \<Rightarrow> jsval \<Rightarrow> jsval \<Rightarrow> jsval \<Rightarrow> jsval \<Rightarrow> js_error + (course_doc option \<times> world)" where
  "Course_create env w t d c cb =
    (let doc = new_course env w t d c cb in
     case schema_validate env doc of
       Some e \<Rightarrow> Inl e
     | None \<Rightarrow> Inr (Some doc, w\<lparr>courses := courses w @ [doc]\<rparr>))"

text \<open>\<^verbatim>\<open>course.save()\<close> validates the document and writes it over the stored one.\<close>

definition course_save :: "env \<Rightarrow> world \<Rightarrow> course_doc \<Rightarrow> js_error + world" where
  "course_save env w doc =
    (case schema_validate env doc of
       Some e \<Rightarrow> Inl e
     | None \<Rightarrow> Inr (w\<lparr>courses := replace_course doc (courses w)\<rparr>))"

text \<open>\<^verbatim>\<open>$set: req.body\<close> writes the paths the body carries and leaves the others.\<close>

definition apply_set :: "body \<Rightarrow> course_doc \<Rightarrow> course_doc" where
  "apply_set b c =
    c\<lparr>title := (if body_title b = JUndefined then title c else body_title b),
      description := (if body_description b = JUndefined then description c else body_description b),
      category := (if body_category b = JUndefined then category c else body_category b),
      createdBy := (if body_createdBy b = JUndefined then createdBy c else body_createdBy b),
      thumbnail := (case body_thumbnail b of None \<Rightarrow> thumbnail c | Some a \<Rightarrow> a),
      lectures := (case body_lectures b of None \<Rightarrow> lectures c | Some ls \<Rightarrow> ls),
      numberOfLectures := (case body_numberOfLectures b of None \<Rightarrow> numberOfLectures c | Some n \<Rightarrow> n)\<rparr>"

text \<open>\<^verbatim>\<open>Course.findByIdAndUpdate(id, {$set: body}, {runValidators: true})\<close> resolves with
  the document as it was before the update, or \<^verbatim>\<open>null\<close>.\<close>

definition Course_findByIdAndUpdate ::
  "env \<Rightarrow> world \<Rightarrow> string \<Rightarrow> body \<Rightarrow> js_error + (course_doc option \<times> world)" where
  "Course_findByIdAndUpdate env w i b =
    (case update_validate env b of
       Some e \<Rightarrow> Inl e
     | None \<Rightarrow>
        (case Course_findById env w i of
           Inl e \<Rightarrow> Inl e
         | Inr None \<Rightarrow> Inr (None, w)
         | Inr (Some c) \<Rightarrow> Inr (Some c, w\<lparr>courses := replace_course (apply_set b c) (courses w)\<rparr>)))"

text \<open>The loop \<^verbatim>\<open>for (const file of await fs.readdir('uploads/')) await fs.unlink(...)\<close>:
  the first argument is the listing, the second the directory.\<close>

fun unlink_all :: "string list \<Rightarrow> string list \<Rightarrow> string list" where
  "unlink_all [] dir = dir"
| "unlink_all (file # files) dir = unlink_all files (removeAll file dir)"

text \<open>\<^verbatim>\<open>JSON.stringify(error) || 'File not uploaded, please try again'\<close>.\<close>

definition upload_error_message :: "js_error \<Rightarrow> string" where
  "upload_error_message error =
    (case err_json error of
       None \<Rightarrow> ''File not uploaded, please try again''
     | Some s \<Rightarrow> if s \<noteq> [] then s else ''File not uploaded, please try again'')"

text \<open>\<^verbatim>\<open>xs.findIndex(p)\<close>, with \<open>None\<close> for \<^verbatim>\<open>-1\<close>, and \<^verbatim>\<open>xs.splice(i, 1)\<close>.\<close>

fun findIndex :: "('a \<Rightarrow> bool) \<Rightarrow> 'a list \<Rightarrow> nat option" where
  "findIndex p [] = None"
| "findIndex p (x # xs) = (if p x then Some 0 else map_option Suc (findIndex p xs))"

definition splice1 :: "nat \<Rightarrow> 'a list \<Rightarrow> 'a list" where
  "splice1 i xs = take i xs @ drop (Suc i) xs"

text \<open>\<^verbatim>\<open>!s\<close> for a query parameter: absent or the empty string.\<close>

fun given :: "string option \<Rightarrow> bool" where
  "given None = False"
| "given (Some s) = (s \<noteq> [])"

section \<open>The course controller\<close>

definition thumbnail_options :: upload_options where
  "thumbnail_options = \<lparr>folder = ''lms'', chunk_size = None, resource_type = None\<rparr>"

definition video_options :: upload_options where
  "video_options = \<lparr>folder = ''lms'', chunk_size = Some 50000000, resource_type = Some ''video''\<rparr>"

text \<open>
  Each handler takes the collaborators, the state and the request, and returns how its
  body ends and the state it leaves. The \<^verbatim>\<open>fs.rm\<close> after a successful upload is not
  awaited; it is taken to have removed the file. \<^verbatim>\<open>console.log\<close> is left out.
\<close>

definition createCourse :: "env \<Rightarrow> world \<Rightarrow> request \<Rightarrow> outcome \<times> world" where
  "createCourse env w req =
    (let title = body_title (body req); description = body_description (body req);
         category = body_category (body req); createdBy = body_createdBy (body req)
     in
     if \<not> truthy title \<or> \<not> truthy description \<or> \<not> truthy category \<or> \<not> truthy createdBy
     then (Next_error (ApiError ''All fields are required'' 400), w)
     else
       (case Course_create env w title description category createdBy of
          Inl e \<Rightarrow> (Rejected e, w)
        | Inr (None, w1) \<Rightarrow>
            (Next_error (ApiError ''Course could not be created, please try again'' 400), w1)
        | Inr (Some course, w1) \<Rightarrow>
            (case (case req_file req of
                     None \<Rightarrow> Inr (course, w1)
                   | Some f \<Rightarrow>
                      (case cloud_upload env (path f) thumbnail_options of
                         Inl error \<Rightarrow>
                           Inl (Next_error (ApiError (upload_error_message error) 400),
                                w1\<lparr>uploads := unlink_all (uploads w1) (uploads w1)\<rparr>)
                       | Inr result \<Rightarrow>
                           Inr (case result of
                                  None \<Rightarrow> course
                                | Some r \<Rightarrow>
                                   course\<lparr>thumbnail := (thumbnail course)
                                     \<lparr>public_id := public_id r, secure_url := secure_url r\<rparr>\<rparr>,
                                w1\<lparr>uploads := removeAll (filename f) (uploads w1)\<rparr>)))
             of
               Inl failed \<Rightarrow> failed
             | Inr (course, w2) \<Rightarrow>
                (case course_save env w2 course of
                   Inl e \<Rightarrow> (Rejected e, w2)
                 | Inr w3 \<Rightarrow>
                    (Responded (Response 201 True ''Course created successfully'' (With_course course)),
                     w3)))))"

definition addLectureToCourseById :: "env \<Rightarrow> world \<Rightarrow> request \<Rightarrow> outcome \<times> world" where
  "addLectureToCourseById env w req =
    (let title = body_title (body req); description = body_description (body req);
         id = params_id req
     in
     if \<not> truthy title \<or> \<not> truthy description
     then (Next_error (ApiError ''Title and Description are required'' 400), w)
     else
       (case Course_findById env w id of
          Inl e \<Rightarrow> (Rejected e, w)
        | Inr None \<Rightarrow> (Next_error (ApiError ''Invalid course id or course not found.'' 400), w)
        | Inr (Some course) \<Rightarrow>
            (case (case req_file req of
                     None \<Rightarrow> Inr (empty_asset, w)
                   | Some f \<Rightarrow>
                      (case cloud_upload env (path f) video_options of
                         Inl error \<Rightarrow>
                           Inl (Next_error (ApiError (upload_error_message error) 400),
                                w\<lparr>uploads := unlink_all (uploads w) (uploads w)\<rparr>)
                       | Inr result \<Rightarrow>
                           Inr (case result of
                                  None \<Rightarrow> empty_asset
                                | Some r \<Rightarrow>
                                   empty_asset\<lparr>public_id := public_id r, secure_url := secure_url r\<rparr>,
                                w\<lparr>uploads := removeAll (filename f) (uploads w)\<rparr>)))
             of
               Inl failed \<Rightarrow> failed
             | Inr (lectureData, w1) \<Rightarrow>
                (let pushed = course\<lparr>lectures := lectures course @
                       [\<lparr>lecture_id = new_object_id env w1, lecture_title = title,
                         lecture_description = description, lecture = lectureData\<rparr>]\<rparr>;
                     counted = pushed\<lparr>numberOfLectures := int (length (lectures pushed))\<rparr>
                 in
                 case course_save env w1 counted of
                   Inl e \<Rightarrow> (Rejected e, w1)
                 | Inr w2 \<Rightarrow>
                    (Responded (Response 200 True ''Course lecture added successfully'' (With_course counted)),
                     w2)))))"

definition removeLectureFromCourse :: "env \<Rightarrow> world \<Rightarrow> request \<Rightarrow> outcome \<times> world" where
  "removeLectureFromCourse env w req =
    (let courseId = query_courseId req; lectureId = query_lectureId req
     in
     if \<not> given courseId
     then (Next_error (ApiError ''Course ID is required'' 400), w)
     else if \<not> given lectureId
     then (Next_error (ApiError ''Lecture ID is required'' 400), w)
     else
       (case Course_findById env w (the courseId) of
          Inl e \<Rightarrow> (Rejected e, w)
        | Inr None \<Rightarrow> (Next_error (ApiError ''Invalid ID or Course does not exist.'' 404), w)
        | Inr (Some course) \<Rightarrow>
            (case findIndex (\<lambda>lecture. lecture_id lecture = the lectureId) (lectures course) of
               None \<Rightarrow> (Next_error (ApiError ''Lecture does not exist.'' 404), w)
             | Some lectureIndex \<Rightarrow>
                (let pid = public_id (lecture (lectures course ! lectureIndex));
                     w1 = w\<lparr>destroy_calls := destroy_calls w @ [(pid, ''video'')]\<rparr>
                 in
                 case cloud_destroy env pid ''video'' of
                   Some e \<Rightarrow> (Rejected e, w1)
                 | None \<Rightarrow>
                    (let spliced = course\<lparr>lectures := splice1 lectureIndex (lectures course)\<rparr>;
                         counted = spliced\<lparr>numberOfLectures := int (length (lectures spliced))\<rparr>
                     in
                     case course_save env w1 counted of
                       Inl e \<Rightarrow> (Rejected e, w1)
                     | Inr w2 \<Rightarrow>
                        (Responded (Response 200 True ''Course lecture removed successfully'' No_payload),
                         w2))))))"

definition updateCourseById :: "env \<Rightarrow> world \<Rightarrow> request \<Rightarrow> outcome \<times> world" where
  "updateCourseById env w req =
    (case Course_findByIdAndUpdate env w (params_id req) (body req) of
       Inl e \<Rightarrow> (Rejected e, w)
     | Inr (None, w1) \<Rightarrow>
         (Next_error (ApiError ''Invalid course id or course not found.'' 400), w1)
     | Inr (Some course, w1) \<Rightarrow>
         (Responded (Response 200 True ''Course updated successfully'' No_payload), w1))"

text \<open>The guard has decided when it passed control on or answered Forbidden.\<close>

definition decided :: "outcome \<Rightarrow> bool" where
  "decided out = (out = Next \<or> out = Next_error (ApiError ''Please subscribe to access this route.'' 403))"

text \<open>A claim carries a subscription object with a status field.\<close>

fun has_status_field :: "jsval \<Rightarrow> bool" where
  "has_status_field (JObj kvs) =
     (case map_of (rev kvs) ''subscription'' of
        Some (JObj sub) \<Rightarrow> map_of (rev sub) ''status'' \<noteq> None
      | _ \<Rightarrow> False)"
| "has_status_field v = False"

definition blank_body :: body where
  "blank_body = \<lparr>body_title = JUndefined, body_description = JUndefined,
     body_category = JUndefined, body_createdBy = JUndefined, body_thumbnail = None,
     body_lectures = None, body_numberOfLectures = None\<rparr>"

definition blank_request :: request where
  "blank_request = \<lparr>cookies = JObj [], user = JUndefined, body = blank_body,
     params_id = [], query_courseId = None, query_lectureId = None, req_file = None\<rparr>"

section \<open>Concrete collaborators and requests\<close>

text \<open>A datastore and an asset host that accept everything, one whose uploads fail and
  one whose destroy calls fail, a store holding one course, and requests against it.\<close>

definition accepting_env :: env where
  "accepting_env =
    \<lparr>cloud_upload = (\<lambda>p opts. Inr (Some \<lparr>public_id = Some (''lms/'' @ p),
                          secure_url = Some (''https://res.example/lms/'' @ p)\<rparr>)),
     cloud_destroy = (\<lambda>pid rt. None),
     schema_validate = (\<lambda>doc. None),
     update_validate = (\<lambda>b. None),
     default_numberOfLectures = 0,
     new_object_id = (\<lambda>w. ''id'' @ replicate (length (courses w)) (CHR ''c'') @
                        replicate (length (concat (map lectures (courses w)))) (CHR ''l'')),
     valid_object_id = (\<lambda>i. i \<noteq> [])\<rparr>"

definition failing_upload_env :: env where
  "failing_upload_env =
    accepting_env\<lparr>cloud_upload := (\<lambda>p opts. Inl (JsError ''Error'' (Some ''{\"http_code\":499}'')))\<rparr>"

definition failing_destroy_env :: env where
  "failing_destroy_env =
    accepting_env\<lparr>cloud_destroy := (\<lambda>pid rt. Some (JsError ''Error'' None))\<rparr>"

definition expired_verify :: "jsval \<Rightarrow> js_error + jsval" where
  "expired_verify token =
    Inl (JsError ''TokenExpiredError''
          (Some ''{\"name\":\"TokenExpiredError\",\"message\":\"jwt expired\"}''))"

definition algebra :: course_doc where
  "algebra = \<lparr>course_id = ''c1'', title = JStr ''Algebra'', description = JStr ''Intro'',
     category = JStr ''Math'', createdBy = JStr ''u1'', thumbnail = empty_asset,
     lectures = [], numberOfLectures = 0\<rparr>"

definition algebra_world :: world where
  "algebra_world = \<lparr>courses = [algebra], uploads = [''a.mp4'', ''b.png''], destroy_calls = []\<rparr>"

definition geometry_request :: request where
  "geometry_request = blank_request\<lparr>body := blank_body\<lparr>body_title := JStr ''Geometry'',
     body_description := JStr ''Shapes'', body_category := JStr ''Math'',
     body_createdBy := JStr ''u1''\<rparr>\<rparr>"

text \<open>The draft \<open>geometry_request\<close> creates in \<open>algebra_world\<close>.\<close>

definition geometry :: course_doc where
  "geometry = \<lparr>course_id = ''idc'', title = JStr ''Geometry'', description = JStr ''Shapes'',
     category = JStr ''Math'', createdBy = JStr ''u1'', thumbnail = empty_asset,
     lectures = [], numberOfLectures = 0\<rparr>"

definition lecture_request :: request where
  "lecture_request = blank_request\<lparr>params_id := ''c1'',
     body := blank_body\<lparr>body_title := JStr ''Lecture 1'', body_description := JStr ''Numbers''\<rparr>\<rparr>"

text \<open>The lecture \<open>lecture_request\<close> adds: no file was sent, its asset reference is empty.\<close>

definition first_lecture :: lecture_doc where
  "first_lecture = \<lparr>lecture_id = ''idc'', lecture_title = JStr ''Lecture 1'',
     lecture_description = JStr ''Numbers'', lecture = empty_asset\<rparr>"

definition lectured_algebra :: course_doc where
  "lectured_algebra = algebra\<lparr>lectures := [first_lecture], numberOfLectures := 1\<rparr>"

definition lectured_world :: world where
  "lectured_world = algebra_world\<lparr>courses := [lectured_algebra]\<rparr>"

definition removal_request :: request where
  "removal_request = blank_request\<lparr>query_courseId := Some ''c1'', query_lectureId := Some ''idc''\<rparr>"

section \<open>Properties of the middleware\<close>

lemma get_prop_truthy: "truthy v \<Longrightarrow> \<exists>x. get_prop v k = Inr x"
  by (cases v) simp_all

lemma get_prop_nullish: "nullish v \<Longrightarrow> get_prop v k = Inl TypeError"
  by (cases v) simp_all

lemma get_prop_not_nullish: "\<not> nullish v \<Longrightarrow> \<exists>x. get_prop v k = Inr x"
  by (cases v) simp_all

text \<open>When no allowed role is an object, \<^verbatim>\<open>includes\<close> is membership.\<close>

lemma includes_member:
  assumes "\<forall>r\<in>set roles. \<not> is_object r"
  shows "array_includes roles v \<longleftrightarrow> v \<in> set roles"
proof -
  have "same_value_zero r v \<longleftrightarrow> r = v" if "\<not> is_object r" for r
    using that by (cases r; cases v) auto
  with assms show ?thesis
    unfolding array_includes_def list_ex_iff by blast
qed

text \<open>The two rejections \<open>isLoggedIn\<close> does produce, and what it leaves on the request
  when it passes control on.\<close>

lemma isLoggedIn_no_cookie:
  "get_prop (cookies req) ''token'' = Inr token \<Longrightarrow> \<not> truthy token \<Longrightarrow>
   isLoggedIn jwt_verify req =
     (Next_error (ApiError ''Unauthorized, please login to continue'' 401), req)"
  by (simp add: isLoggedIn_def)

lemma isLoggedIn_falsy_claim:
  "get_prop (cookies req) ''token'' = Inr token \<Longrightarrow> truthy token \<Longrightarrow>
   jwt_verify token = Inr decoded \<Longrightarrow> \<not> truthy decoded \<Longrightarrow>
   isLoggedIn jwt_verify req =
     (Next_error (ApiError ''Unauthorized, please login to continue'' 401), req)"
  by (simp add: isLoggedIn_def)

lemma isLoggedIn_verified:
  "isLoggedIn jwt_verify req = (Next, req') \<Longrightarrow> truthy (user req')"
  by (auto simp: isLoggedIn_def split: sum.splits if_splits)

text \<open>A subscription whose status reads as \<^verbatim>\<open>undefined\<close> is answered Forbidden.\<close>

lemma authorizeSubscribers_no_status_forbidden:
  assumes "get_prop (user req) ''role'' = Inr role" and "role \<noteq> JStr ''ADMIN''"
    and "get_prop (user req) ''subscription'' = Inr subscription"
    and "get_prop subscription ''status'' = Inr JUndefined"
  shows "authorizeSubscribers req =
           Next_error (ApiError ''Please subscribe to access this route.'' 403)"
  using assms by (simp add: authorizeSubscribers_def)

text \<open>
  C1. A credential that fails verification is to be rejected with Unauthenticated
  (status 401) and nothing else. \<^verbatim>\<open>jwt.verify\<close> reports a bad signature, an expired or a
  malformed token by throwing, and the body of \<open>isLoggedIn\<close> has no handler around the
  call: on a request whose token cookie holds an expired token the body ends with the
  thrown TokenExpiredError itself, not with the 401 \<open>ApiError\<close> it produces for a missing
  cookie or a falsy claim.
\<close>

theorem isLoggedIn_verify_throws:
  "isLoggedIn expired_verify
     (blank_request\<lparr>cookies := JObj [(''token'', JStr ''eyJhbGciOiJIUzI1NiJ9.e30.expired'')]\<rparr>)
   = (Rejected (JsError ''TokenExpiredError''
        (Some ''{\"name\":\"TokenExpiredError\",\"message\":\"jwt expired\"}'')),
      blank_request\<lparr>cookies := JObj [(''token'', JStr ''eyJhbGciOiJIUzI1NiJ9.e30.expired'')]\<rparr>)
   \<and> fst (isLoggedIn expired_verify
        (blank_request\<lparr>cookies := JObj [(''token'', JStr ''eyJhbGciOiJIUzI1NiJ9.e30.expired'')]\<rparr>))
     \<noteq> Next_error (ApiError ''Unauthorized, please login to continue'' 401)"
  by (simp add: isLoggedIn_def expired_verify_def blank_request_def)

text \<open>
  C2, as stated: every verified claim is either admitted or answered Forbidden (403). The
  verified claim \<^verbatim>\<open>{id: "u1", role: "USER"}\<close> has no subscription: the guard reads
  \<^verbatim>\<open>status\<close> of \<^verbatim>\<open>undefined\<close> and throws a TypeError, so the claim is neither admitted
  nor answered Forbidden.
\<close>

theorem authorizeSubscribers_no_subscription_counterexample:
  "truthy (JObj [(''id'', JStr ''u1''), (''role'', JStr ''USER'')])
   \<and> authorizeSubscribers (blank_request\<lparr>user := JObj [(''id'', JStr ''u1''), (''role'', JStr ''USER'')]\<rparr>)
     = Rejected TypeError
   \<and> authorizeSubscribers (blank_request\<lparr>user := JObj [(''id'', JStr ''u1''), (''role'', JStr ''USER'')]\<rparr>)
     \<noteq> Next
   \<and> authorizeSubscribers (blank_request\<lparr>user := JObj [(''id'', JStr ''u1''), (''role'', JStr ''USER'')]\<rparr>)
     \<noteq> Next_error (ApiError ''Please subscribe to access this route.'' 403)"
  by (simp add: authorizeSubscribers_def blank_request_def)

text \<open>
  C2, amended. For a verified claim (the truthy value \<open>isLoggedIn\<close> stored in
  \<open>req.user\<close>), \<open>authorizeSubscribers\<close> passes control on exactly when the role is ADMIN
  (whatever the subscription, also when there is none) or the subscription's status is
  \<open>active\<close>; it answers Forbidden (403) exactly when the role is not ADMIN, the
  subscription is neither \<^verbatim>\<open>undefined\<close> nor \<^verbatim>\<open>null\<close>, and its status is not
  \<open>active\<close>; and it throws a TypeError exactly when the role is not ADMIN and the
  subscription is \<^verbatim>\<open>undefined\<close> or \<^verbatim>\<open>null\<close>.
\<close>

theorem authorizeSubscribers_outcome:
  assumes "truthy (user req)"
  shows "\<exists>role subscription.
     get_prop (user req) ''role'' = Inr role \<and>
     get_prop (user req) ''subscription'' = Inr subscription \<and>
     (authorizeSubscribers req = Next \<longleftrightarrow>
        role = JStr ''ADMIN'' \<or> get_prop subscription ''status'' = Inr (JStr ''active'')) \<and>
     (authorizeSubscribers req =
        Next_error (ApiError ''Please subscribe to access this route.'' 403) \<longleftrightarrow>
        role \<noteq> JStr ''ADMIN'' \<and> \<not> nullish subscription \<and>
        get_prop subscription ''status'' \<noteq> Inr (JStr ''active'')) \<and>
     (authorizeSubscribers req = Rejected TypeError \<longleftrightarrow>
        role \<noteq> JStr ''ADMIN'' \<and> nullish subscription)"
proof -
  from assms obtain role where role: "get_prop (user req) ''role'' = Inr role"
    using get_prop_truthy by blast
  from assms obtain subscription where
    sub: "get_prop (user req) ''subscription'' = Inr subscription"
    using get_prop_truthy by blast
  show ?thesis
  proof (cases "nullish subscription")
    case True
    then have "get_prop subscription ''status'' = Inl TypeError"
      by (rule get_prop_nullish)
    with role sub True show ?thesis
      by (simp add: authorizeSubscribers_def)
  next
    case False
    then obtain st where "get_prop subscription ''status'' = Inr st"
      using get_prop_not_nullish by blast
    with role sub False show ?thesis
      by (auto simp: authorizeSubscribers_def)
  qed
qed

theorem authorizeSubscribers_outcome_witness:
  "authorizeSubscribers (blank_request\<lparr>user := JObj [(''role'', JStr ''USER''),
      (''subscription'', JObj [(''status'', JStr ''active'')])]\<rparr>) = Next
   \<and> authorizeSubscribers (blank_request\<lparr>user := JObj [(''role'', JStr ''USER''),
      (''subscription'', JObj [(''status'', JStr ''inactive'')])]\<rparr>)
       = Next_error (ApiError ''Please subscribe to access this route.'' 403)
   \<and> authorizeSubscribers (blank_request\<lparr>user := JObj [(''role'', JStr ''ADMIN''),
      (''subscription'', JObj [(''status'', JStr ''inactive'')])]\<rparr>) = Next
   \<and> authorizeSubscribers (blank_request\<lparr>user := JObj [(''role'', JStr ''ADMIN'')]\<rparr>) = Next
   \<and> authorizeSubscribers (blank_request\<lparr>user := JObj [(''role'', JStr ''USER''),
      (''subscription'', JNull)]\<rparr>) = Rejected TypeError"
  using authorizeSubscribers_outcome [of "blank_request\<lparr>user := JObj [(''role'', JStr ''USER''),
      (''subscription'', JObj [(''status'', JStr ''active'')])]\<rparr>"]
    authorizeSubscribers_outcome [of "blank_request\<lparr>user := JObj [(''role'', JStr ''USER''),
      (''subscription'', JObj [(''status'', JStr ''inactive'')])]\<rparr>"]
    authorizeSubscribers_outcome [of "blank_request\<lparr>user := JObj [(''role'', JStr ''ADMIN''),
      (''subscription'', JObj [(''status'', JStr ''inactive'')])]\<rparr>"]
    authorizeSubscribers_outcome [of "blank_request\<lparr>user := JObj [(''role'', JStr ''ADMIN'')]\<rparr>"]
    authorizeSubscribers_outcome [of "blank_request\<lparr>user := JObj [(''role'', JStr ''USER''),
      (''subscription'', JNull)]\<rparr>"]
  by (simp add: blank_request_def)

text \<open>
  C3. For a verified claim and allowed roles that are role names (no element is an
  object), \<open>authorizeRoles\<close> answers Forbidden (403) exactly when the claim's role is not
  among the allowed roles and passes control on exactly when it is; an ADMIN that is not
  among them is answered Forbidden like any other role. The allowed roles may also be
  empty.
\<close>

theorem authorizeRoles_membership:
  assumes "truthy (user req)" and "\<forall>r\<in>set roles. \<not> is_object r"
  shows "\<exists>role. get_prop (user req) ''role'' = Inr role \<and>
     (authorizeRoles roles req =
        Next_error (ApiError ''You do not have permission to view this route'' 403)
      \<longleftrightarrow> role \<notin> set roles) \<and>
     (authorizeRoles roles req = Next \<longleftrightarrow> role \<in> set roles) \<and>
     (role = JStr ''ADMIN'' \<and> JStr ''ADMIN'' \<notin> set roles \<longrightarrow>
        authorizeRoles roles req =
          Next_error (ApiError ''You do not have permission to view this route'' 403))"
proof -
  from assms(1) obtain role where role: "get_prop (user req) ''role'' = Inr role"
    using get_prop_truthy by blast
  have "array_includes roles role \<longleftrightarrow> role \<in> set roles"
    using assms(2) by (rule includes_member)
  with role show ?thesis
    by (auto simp: authorizeRoles_def)
qed

theorem authorizeRoles_membership_witness:
  "authorizeRoles [JStr ''USER''] (blank_request\<lparr>user := JObj [(''role'', JStr ''ADMIN'')]\<rparr>)
     = Next_error (ApiError ''You do not have permission to view this route'' 403)
   \<and> authorizeRoles [JStr ''ADMIN''] (blank_request\<lparr>user := JObj [(''role'', JStr ''ADMIN'')]\<rparr>)
     = Next"
  using authorizeRoles_membership [of "blank_request\<lparr>user := JObj [(''role'', JStr ''ADMIN'')]\<rparr>"
      "[JStr ''USER'']"]
    authorizeRoles_membership [of "blank_request\<lparr>user := JObj [(''role'', JStr ''ADMIN'')]\<rparr>"
      "[JStr ''ADMIN'']"]
  by (simp add: blank_request_def)

text \<open>
  C9, as stated: a non-ADMIN claim reaches a decision only if it carries a subscription
  object with a status field. The claim \<^verbatim>\<open>{role: "USER", subscription: {}}\<close> has no
  status field, and the guard decides: \<^verbatim>\<open>undefined !== "active"\<close> holds, so it answers
  Forbidden.
\<close>

theorem authorizeSubscribers_no_status_counterexample:
  "authorizeSubscribers (blank_request\<lparr>user := JObj [(''role'', JStr ''USER''),
      (''subscription'', JObj [])]\<rparr>)
     = Next_error (ApiError ''Please subscribe to access this route.'' 403)
   \<and> decided (authorizeSubscribers (blank_request\<lparr>user := JObj [(''role'', JStr ''USER''),
      (''subscription'', JObj [])]\<rparr>))
   \<and> \<not> has_status_field (JObj [(''role'', JStr ''USER''), (''subscription'', JObj [])])"
  by (simp add: authorizeSubscribers_def decided_def blank_request_def)

text \<open>
  C9, amended. For a claim whose role is ADMIN the guard passes control on without
  reading the subscription (so also when there is none). For any other role the
  subscription is read, and a decision (pass or Forbidden) is reached exactly when it is
  neither \<^verbatim>\<open>undefined\<close> nor \<^verbatim>\<open>null\<close>; when it is absent the guard throws a TypeError
  instead of answering Forbidden.
\<close>

theorem authorizeSubscribers_subscription_read:
  assumes "get_prop (user req) ''role'' = Inr role"
  shows "(role = JStr ''ADMIN'' \<longrightarrow> authorizeSubscribers req = Next) \<and>
     (role \<noteq> JStr ''ADMIN'' \<longrightarrow>
        (\<exists>subscription. get_prop (user req) ''subscription'' = Inr subscription \<and>
           (decided (authorizeSubscribers req) \<longleftrightarrow> \<not> nullish subscription) \<and>
           (nullish subscription \<longrightarrow> authorizeSubscribers req = Rejected TypeError)))"
proof -
  from assms have "\<not> nullish (user req)"
    by (cases "user req") (simp_all add: TypeError_def)
  then obtain subscription where sub: "get_prop (user req) ''subscription'' = Inr subscription"
    using get_prop_not_nullish by blast
  show ?thesis
  proof (cases "nullish subscription")
    case True
    then have "get_prop subscription ''status'' = Inl TypeError"
      by (rule get_prop_nullish)
    with assms sub True show ?thesis
      by (simp add: authorizeSubscribers_def decided_def)
  next
    case False
    then obtain st where "get_prop subscription ''status'' = Inr st"
      using get_prop_not_nullish by blast
    with assms sub False show ?thesis
      by (simp add: authorizeSubscribers_def decided_def)
  qed
qed

theorem authorizeSubscribers_subscription_read_witness:
  "authorizeSubscribers (blank_request\<lparr>user := JObj [(''role'', JStr ''USER'')]\<rparr>)
     = Rejected TypeError
   \<and> authorizeSubscribers (blank_request\<lparr>user := JObj [(''role'', JStr ''ADMIN'')]\<rparr>) = Next"
  using authorizeSubscribers_subscription_read [of
      "blank_request\<lparr>user := JObj [(''role'', JStr ''USER'')]\<rparr>" "JStr ''USER''"]
    authorizeSubscribers_subscription_read [of
      "blank_request\<lparr>user := JObj [(''role'', JStr ''ADMIN'')]\<rparr>" "JStr ''ADMIN''"]
  by (simp add: blank_request_def)

section \<open>Properties of the course controller\<close>

lemmas example_defs = accepting_env_def failing_upload_env_def failing_destroy_env_def
  algebra_def geometry_def algebra_world_def geometry_request_def lecture_request_def first_lecture_def
  lectured_algebra_def lectured_world_def removal_request_def blank_request_def
  blank_body_def empty_asset_def

lemmas handler_defs = createCourse_def addLectureToCourseById_def removeLectureFromCourse_def
  updateCourseById_def Course_create_def Course_findById_def Course_findByIdAndUpdate_def
  course_save_def new_course_def find_course_def apply_set_def splice1_def
  upload_error_message_def thumbnail_options_def video_options_def Let_def

subsection \<open>The datastore and the lists\<close>

lemma unlink_all_empty: "set dir \<subseteq> set files \<Longrightarrow> unlink_all files dir = []"
proof (induction files arbitrary: dir)
  case Nil
  then show ?case by simp
next
  case (Cons name files)
  have "set (removeAll name dir) \<subseteq> set files"
    using Cons.prems by auto
  then show ?case
    using Cons.IH by simp
qed

lemma find_course_id: "find_course i cs = Some c \<Longrightarrow> course_id c = i"
  unfolding find_course_def by (induction cs) (auto split: if_splits)

lemma find_course_replace:
  "course_id doc = i \<Longrightarrow> find_course i cs = Some c \<Longrightarrow>
   find_course i (replace_course doc cs) = Some doc"
  unfolding find_course_def by (induction cs) (auto split: if_splits)

lemma findIndex_Some:
  "findIndex p xs = Some i \<Longrightarrow> i < length xs \<and> p (xs ! i)"
proof (induction xs arbitrary: i)
  case Nil
  then show ?case by simp
next
  case (Cons x xs)
  then show ?case
    by (cases "p x") auto
qed

lemma findIndex_None: "findIndex p xs = None \<longleftrightarrow> (\<forall>x\<in>set xs. \<not> p x)"
  by (induction xs) auto

lemma length_splice1: "i < length xs \<Longrightarrow> length (splice1 i xs) = length xs - 1"
  by (simp add: splice1_def)

lemma Course_findById_found:
  "find_course i (courses w) = Some c \<Longrightarrow> Course_findById env w i = Inr (Some c)"
  by (simp add: Course_findById_def)

lemma Course_findById_Some:
  "Course_findById env w i = Inr (Some c) \<Longrightarrow> find_course i (courses w) = Some c"
  by (auto simp: Course_findById_def split: option.splits if_splits)

lemma course_save_courses:
  "course_save env w doc = Inr w' \<Longrightarrow>
   w' = w\<lparr>courses := replace_course doc (courses w)\<rparr>"
  by (auto simp: course_save_def split: option.splits)

lemma find_course_append:
  "find_course i (cs @ ds) =
     (case find_course i cs of Some c \<Rightarrow> Some c | None \<Rightarrow> find_course i ds)"
  unfolding find_course_def by (induction cs) auto

lemma createCourse_Responded:
  assumes "createCourse env w req = (Responded r, w')"
  shows "\<exists>c. res_payload r = With_course c \<and> lectures c = [] \<and>
           numberOfLectures c = default_numberOfLectures env \<and>
           find_course (course_id c) (courses w') = Some c"
proof -
  let ?doc = "new_course env w (body_title (body req)) (body_description (body req))
                (body_category (body req)) (body_createdBy (body req))"
  let ?w1 = "w\<lparr>courses := courses w @ [?doc]\<rparr>"
  have found: "\<exists>c. find_course (course_id ?doc) (courses ?w1) = Some c"
    by (cases "find_course (course_id ?doc) (courses w)")
       (auto simp: find_course_append, simp add: find_course_def)
  from assms obtain w2 c where
    save: "course_save env w2 c = Inr w'"
    and r: "res_payload r = With_course c"
    and c: "course_id c = course_id ?doc" "lectures c = []"
       "numberOfLectures c = default_numberOfLectures env"
    and w2: "courses w2 = courses ?w1"
    by (auto simp: createCourse_def Course_create_def Let_def new_course_def
        split: if_splits sum.splits option.splits prod.splits)
  from save have "courses w' = replace_course c (courses w2)"
    by (auto dest: course_save_courses)
  with found w2 c(1) have "find_course (course_id c) (courses w') = Some c"
    by (auto intro: find_course_replace)
  with c r show ?thesis by blast
qed

lemma addLecture_Responded:
  assumes "addLectureToCourseById env w req = (Responded r, w')"
  shows "\<exists>course counted l.
           find_course (params_id req) (courses w) = Some course \<and>
           find_course (params_id req) (courses w') = Some counted \<and>
           lectures counted = lectures course @ [l] \<and>
           numberOfLectures counted = int (length (lectures counted))"
proof -
  from assms obtain w1 counted course l where
    save: "course_save env w1 counted = Inr w'"
    and found: "Course_findById env w (params_id req) = Inr (Some course)"
    and w1: "courses w1 = courses w"
    and counted: "course_id counted = course_id course"
      "lectures counted = lectures course @ [l]"
      "numberOfLectures counted = int (length (lectures counted))"
    by (auto simp: addLectureToCourseById_def Let_def
        split: if_splits sum.splits option.splits prod.splits)
  from found have c: "find_course (params_id req) (courses w) = Some course"
    by (rule Course_findById_Some)
  then have "course_id course = params_id req"
    by (rule find_course_id)
  with c w1 save counted have "find_course (params_id req) (courses w') = Some counted"
    by (auto dest!: course_save_courses intro!: find_course_replace)
  with c counted show ?thesis by blast
qed

lemma removeLecture_Responded:
  assumes "removeLectureFromCourse env w req = (Responded r, w')"
  shows "\<exists>cid lid course counted i.
           query_courseId req = Some cid \<and> query_lectureId req = Some lid \<and>
           find_course cid (courses w) = Some course \<and>
           findIndex (\<lambda>l. lecture_id l = lid) (lectures course) = Some i \<and>
           find_course cid (courses w') = Some counted \<and>
           lectures counted = splice1 i (lectures course) \<and>
           numberOfLectures counted = int (length (lectures counted)) \<and>
           destroy_calls w' =
             destroy_calls w @ [(public_id (lecture (lectures course ! i)), ''video'')]"
proof -
  from assms obtain w1 counted cid lid course i where
    save: "course_save env w1 counted = Inr w'"
    and q: "query_courseId req = Some cid" "query_lectureId req = Some lid"
    and found: "Course_findById env w cid = Inr (Some course)"
    and i: "findIndex (\<lambda>l. lecture_id l = lid) (lectures course) = Some i"
    and w1: "w1 = w\<lparr>destroy_calls := destroy_calls w @
                [(public_id (lecture (lectures course ! i)), ''video'')]\<rparr>"
    and counted: "course_id counted = course_id course"
      "lectures counted = splice1 i (lectures course)"
      "numberOfLectures counted = int (length (lectures counted))"
    by (cases "query_courseId req"; cases "query_lectureId req")
       (auto simp: removeLectureFromCourse_def Let_def
        split: if_splits sum.splits option.splits prod.splits)
  from found have c: "find_course cid (courses w) = Some course"
    by (rule Course_findById_Some)
  then have "course_id course = cid"
    by (rule find_course_id)
  with c w1 save counted have "find_course cid (courses w') = Some counted"
    "destroy_calls w' = destroy_calls w @ [(public_id (lecture (lectures course ! i)), ''video'')]"
    by (auto dest!: course_save_courses intro!: find_course_replace)
  with q c i counted show ?thesis by blast
qed


lemma updateCourse_Responded:
  assumes "updateCourseById env w req = (Responded r, w')"
  shows "\<exists>course. find_course (params_id req) (courses w) = Some course \<and>
           find_course (params_id req) (courses w') = Some (apply_set (body req) course)"
proof -
  from assms obtain course where
    found: "Course_findById env w (params_id req) = Inr (Some course)"
    and w': "w' = w\<lparr>courses := replace_course (apply_set (body req) course) (courses w)\<rparr>"
    by (auto simp: updateCourseById_def Course_findByIdAndUpdate_def
        split: sum.splits option.splits prod.splits)
  from found have c: "find_course (params_id req) (courses w) = Some course"
    by (rule Course_findById_Some)
  then have "course_id (apply_set (body req) course) = params_id req"
    by (simp add: apply_set_def find_course_id)
  with c w' show ?thesis
    by (auto intro!: find_course_replace)
qed

text \<open>After a successful add, the remove of the lecture just appended is not refused: it is
  answered with status 200 unless the destroy call or the save throws.\<close>

lemma findIndex_member:
  "x \<in> set xs \<Longrightarrow> p x \<Longrightarrow> \<exists>i. findIndex p xs = Some i"
  by (cases "findIndex p xs") (auto simp: findIndex_None)

lemma remove_added_lecture_not_refused:
  assumes "addLectureToCourseById env w req = (Responded r1, w1)"
    and "find_course (params_id req) (courses w1) = Some c1"
    and "params_id req \<noteq> []" and "lecture_id (last (lectures c1)) \<noteq> []"
    and "query_courseId req' = Some (params_id req)"
    and "query_lectureId req' = Some (lecture_id (last (lectures c1)))"
  shows "(\<exists>r2 w2. removeLectureFromCourse env w1 req' = (Responded r2, w2)) \<or>
         (\<exists>e w2. removeLectureFromCourse env w1 req' = (Rejected e, w2))"
proof -
  from assms(1,2) have "lectures c1 \<noteq> []"
    using addLecture_Responded [of env w req r1 w1] by auto
  then have "last (lectures c1) \<in> set (lectures c1)"
    by simp
  then obtain i where
    "findIndex (\<lambda>l. lecture_id l = lecture_id (last (lectures c1))) (lectures c1) = Some i"
    using findIndex_member [of "last (lectures c1)" "lectures c1"
        "\<lambda>l. lecture_id l = lecture_id (last (lectures c1))"] by auto
  with assms(2-6) show ?thesis
    by (auto simp: removeLectureFromCourse_def Course_findById_found Let_def
        split: option.splits sum.splits)
qed


text \<open>
  C4. When any of \<open>title\<close>, \<open>description\<close>, \<open>category\<close>, \<open>createdBy\<close> is missing from
  the body (or is falsy in any other way), \<open>createCourse\<close> answers with the error
  "All fields are required" and status 400, and the datastore, the staging directory and
  the asset host are as they were: no record is persisted.
\<close>

theorem createCourse_missing_field:
  assumes "\<not> truthy (body_title (body req)) \<or> \<not> truthy (body_description (body req)) \<or>
           \<not> truthy (body_category (body req)) \<or> \<not> truthy (body_createdBy (body req))"
  shows "createCourse env w req = (Next_error (ApiError ''All fields are required'' 400), w)"
  using assms by (simp add: createCourse_def)

theorem createCourse_missing_field_witness:
  "createCourse accepting_env algebra_world
     (blank_request\<lparr>body := blank_body\<lparr>body_title := JStr ''Geometry''\<rparr>\<rparr>)
   = (Next_error (ApiError ''All fields are required'' 400), algebra_world)"
  using createCourse_missing_field [of "blank_request\<lparr>body := blank_body\<lparr>body_title := JStr ''Geometry''\<rparr>\<rparr>"
      accepting_env algebra_world]
  by (simp add: blank_request_def blank_body_def)

text \<open>
  C5. With the four fields present, a draft the schema accepts, a file attached and an
  upload that throws, \<open>createCourse\<close> answers with status 400; the draft that
  \<^verbatim>\<open>Course.create\<close> persisted is still in the collection, behind the courses that were
  there, and the staging directory is empty, whatever files it held.
\<close>

theorem createCourse_upload_fails:
  assumes "truthy (body_title (body req))" and "truthy (body_description (body req))"
    and "truthy (body_category (body req))" and "truthy (body_createdBy (body req))"
    and "schema_validate env (new_course env w (body_title (body req))
           (body_description (body req)) (body_category (body req))
           (body_createdBy (body req))) = None"
    and "req_file req = Some f"
    and "cloud_upload env (path f) thumbnail_options = Inl error"
  shows "createCourse env w req =
    (Next_error (ApiError (upload_error_message error) 400),
     w\<lparr>courses := courses w @ [new_course env w (body_title (body req))
           (body_description (body req)) (body_category (body req))
           (body_createdBy (body req))],
       uploads := []\<rparr>)"
  using assms by (simp add: createCourse_def Course_create_def Let_def unlink_all_empty)

theorem createCourse_upload_fails_witness:
  "createCourse failing_upload_env algebra_world
     (geometry_request\<lparr>req_file := Some \<lparr>path = ''uploads/b.png'', filename = ''b.png''\<rparr>\<rparr>)
   = (Next_error (ApiError ''{\"http_code\":499}'' 400),
      \<lparr>courses = [algebra, geometry], uploads = [], destroy_calls = []\<rparr>)"
  using createCourse_upload_fails [of
      "geometry_request\<lparr>req_file := Some \<lparr>path = ''uploads/b.png'', filename = ''b.png''\<rparr>\<rparr>"
      failing_upload_env algebra_world "\<lparr>path = ''uploads/b.png'', filename = ''b.png''\<rparr>"
      "JsError ''Error'' (Some ''{\"http_code\":499}'')"]
  by (simp add: example_defs new_course_def upload_error_message_def)


text \<open>
  C6, as stated: after every successful mutation the lecture count equals the length of
  the lecture list. An update writes the fields of the body as they are: on a course with
  no lectures, the body \<^verbatim>\<open>{numberOfLectures: 5}\<close> is answered with status 200 and leaves
  the stored count at 5.
\<close>

theorem updateCourseById_count_counterexample:
  "updateCourseById accepting_env algebra_world
     (blank_request\<lparr>params_id := ''c1'', body := blank_body\<lparr>body_numberOfLectures := Some 5\<rparr>\<rparr>)
   = (Responded (Response 200 True ''Course updated successfully'' No_payload),
      algebra_world\<lparr>courses := [algebra\<lparr>numberOfLectures := 5\<rparr>]\<rparr>)
   \<and> numberOfLectures (algebra\<lparr>numberOfLectures := 5\<rparr>)
       \<noteq> int (length (lectures (algebra\<lparr>numberOfLectures := 5\<rparr>)))"
  by (simp add: example_defs handler_defs)

text \<open>
  C6, amended. After a successful create (the schema's default count being 0), add
  lecture or remove lecture, the stored course's \<open>numberOfLectures\<close> equals the length of
  its \<open>lectures\<close>. An update does not recompute the count: after a successful update the
  stored \<open>lectures\<close> is the body's when the body carries one and is otherwise as before,
  and the stored \<open>numberOfLectures\<close> is the body's when the body carries one and is
  otherwise as before; when the body carries neither, both are as they were.
\<close>

theorem count_after_mutation:
  "(createCourse env w req = (Responded r, w') \<longrightarrow> default_numberOfLectures env = 0 \<longrightarrow>
      (\<exists>c. res_payload r = With_course c \<and> find_course (course_id c) (courses w') = Some c \<and>
           numberOfLectures c = int (length (lectures c))))
   \<and> (addLectureToCourseById env w req = (Responded r, w') \<longrightarrow>
      (\<exists>c. find_course (params_id req) (courses w') = Some c \<and>
           numberOfLectures c = int (length (lectures c))))
   \<and> (removeLectureFromCourse env w req = (Responded r, w') \<longrightarrow>
      (\<exists>c. query_courseId req = Some (course_id c) \<and>
           find_course (course_id c) (courses w') = Some c \<and>
           numberOfLectures c = int (length (lectures c))))
   \<and> (updateCourseById env w req = (Responded r, w') \<longrightarrow>
       body_lectures (body req) = None \<longrightarrow> body_numberOfLectures (body req) = None \<longrightarrow>
      (\<exists>c c'. find_course (params_id req) (courses w) = Some c \<and>
           find_course (params_id req) (courses w') = Some c' \<and>
           lectures c' = lectures c \<and> numberOfLectures c' = numberOfLectures c))
   \<and> (updateCourseById env w req = (Responded r, w') \<longrightarrow>
      (\<exists>c c'. find_course (params_id req) (courses w) = Some c \<and>
           find_course (params_id req) (courses w') = Some c' \<and>
           lectures c' =
             (case body_lectures (body req) of None \<Rightarrow> lectures c | Some ls \<Rightarrow> ls) \<and>
           numberOfLectures c' =
             (case body_numberOfLectures (body req) of
                None \<Rightarrow> numberOfLectures c | Some n \<Rightarrow> n)))"
proof (intro conjI impI)
  assume "createCourse env w req = (Responded r, w')" and "default_numberOfLectures env = 0"
  then show "\<exists>c. res_payload r = With_course c \<and> find_course (course_id c) (courses w') = Some c \<and>
           numberOfLectures c = int (length (lectures c))"
    using createCourse_Responded [of env w req r w'] by auto
next
  assume "addLectureToCourseById env w req = (Responded r, w')"
  then show "\<exists>c. find_course (params_id req) (courses w') = Some c \<and>
           numberOfLectures c = int (length (lectures c))"
    using addLecture_Responded [of env w req r w'] by auto
next
  assume "removeLectureFromCourse env w req = (Responded r, w')"
  then obtain cid counted where "query_courseId req = Some cid"
    "find_course cid (courses w') = Some counted"
    "numberOfLectures counted = int (length (lectures counted))"
    using removeLecture_Responded [of env w req r w'] by auto
  moreover from this have "course_id counted = cid"
    by (simp add: find_course_id)
  ultimately show "\<exists>c. query_courseId req = Some (course_id c) \<and>
           find_course (course_id c) (courses w') = Some c \<and>
           numberOfLectures c = int (length (lectures c))"
    by auto
next
  assume "updateCourseById env w req = (Responded r, w')"
    and "body_lectures (body req) = None" and "body_numberOfLectures (body req) = None"
  then show "\<exists>c c'. find_course (params_id req) (courses w) = Some c \<and>
           find_course (params_id req) (courses w') = Some c' \<and>
           lectures c' = lectures c \<and> numberOfLectures c' = numberOfLectures c"
    using updateCourse_Responded [of env w req r w'] by (auto simp: apply_set_def)
next
  assume "updateCourseById env w req = (Responded r, w')"
  then show "\<exists>c c'. find_course (params_id req) (courses w) = Some c \<and>
           find_course (params_id req) (courses w') = Some c' \<and>
           lectures c' =
             (case body_lectures (body req) of None \<Rightarrow> lectures c | Some ls \<Rightarrow> ls) \<and>
           numberOfLectures c' =
             (case body_numberOfLectures (body req) of
                None \<Rightarrow> numberOfLectures c | Some n \<Rightarrow> n)"
    using updateCourse_Responded [of env w req r w'] by (auto simp: apply_set_def)
qed


theorem count_after_mutation_witness:
  "createCourse accepting_env algebra_world geometry_request
     = (Responded (Response 201 True ''Course created successfully'' (With_course geometry)),
        algebra_world\<lparr>courses := [algebra, geometry]\<rparr>)
   \<and> numberOfLectures geometry = int (length (lectures geometry))
   \<and> addLectureToCourseById accepting_env algebra_world lecture_request
     = (Responded (Response 200 True ''Course lecture added successfully''
          (With_course lectured_algebra)), lectured_world)
   \<and> find_course ''c1'' (courses lectured_world) = Some lectured_algebra
   \<and> numberOfLectures lectured_algebra = int (length (lectures lectured_algebra))
   \<and> removeLectureFromCourse accepting_env lectured_world removal_request
     = (Responded (Response 200 True ''Course lecture removed successfully'' No_payload),
        algebra_world\<lparr>destroy_calls := [(None, ''video'')]\<rparr>)
   \<and> numberOfLectures algebra = int (length (lectures algebra))
   \<and> updateCourseById accepting_env lectured_world
        (blank_request\<lparr>params_id := ''c1'', body := blank_body\<lparr>body_title := JStr ''Algebra II''\<rparr>\<rparr>)
     = (Responded (Response 200 True ''Course updated successfully'' No_payload),
        lectured_world\<lparr>courses := [lectured_algebra\<lparr>title := JStr ''Algebra II''\<rparr>]\<rparr>)
   \<and> numberOfLectures (lectured_algebra\<lparr>title := JStr ''Algebra II''\<rparr>)
       = int (length (lectures (lectured_algebra\<lparr>title := JStr ''Algebra II''\<rparr>)))"
  using count_after_mutation [of accepting_env algebra_world geometry_request
      "Response 201 True ''Course created successfully'' (With_course geometry)"
      "algebra_world\<lparr>courses := [algebra, geometry]\<rparr>"]
    count_after_mutation [of accepting_env algebra_world lecture_request
      "Response 200 True ''Course lecture added successfully'' (With_course lectured_algebra)"
      lectured_world]
    count_after_mutation [of accepting_env lectured_world removal_request
      "Response 200 True ''Course lecture removed successfully'' No_payload"
      "algebra_world\<lparr>destroy_calls := [(None, ''video'')]\<rparr>"]
    count_after_mutation [of accepting_env lectured_world
      "blank_request\<lparr>params_id := ''c1'', body := blank_body\<lparr>body_title := JStr ''Algebra II''\<rparr>\<rparr>"
      "Response 200 True ''Course updated successfully'' No_payload"
      "lectured_world\<lparr>courses := [lectured_algebra\<lparr>title := JStr ''Algebra II''\<rparr>]\<rparr>"]
  by (simp add: example_defs handler_defs)

text \<open>
  C7. On an existing course, when add lecture succeeds and remove lecture, called with
  the course's id and the id of the lecture just appended, succeeds too, the stored
  course has as many lectures as before the add, and its \<open>numberOfLectures\<close> is that
  number.
\<close>

theorem add_then_remove_lecture:
  assumes "find_course (params_id req) (courses w) = Some c0"
    and "addLectureToCourseById env w req = (Responded r1, w1)"
    and "find_course (params_id req) (courses w1) = Some c1"
    and "query_courseId req' = Some (params_id req)"
    and "query_lectureId req' = Some (lecture_id (last (lectures c1)))"
    and "removeLectureFromCourse env w1 req' = (Responded r2, w2)"
  shows "\<exists>l c2. lectures c1 = lectures c0 @ [l] \<and>
           find_course (params_id req) (courses w2) = Some c2 \<and>
           length (lectures c2) = length (lectures c0) \<and>
           numberOfLectures c2 = int (length (lectures c0))"
proof -
  from assms(1-3) obtain l where l: "lectures c1 = lectures c0 @ [l]"
    using addLecture_Responded [of env w req r1 w1] by auto
  then have len1: "length (lectures c1) = length (lectures c0) + 1"
    by simp
  from assms(3-6) obtain c2 i where
    c2: "find_course (params_id req) (courses w2) = Some c2"
    and i: "findIndex (\<lambda>l. lecture_id l = lecture_id (last (lectures c1))) (lectures c1) = Some i"
    and l2: "lectures c2 = splice1 i (lectures c1)"
    and n2: "numberOfLectures c2 = int (length (lectures c2))"
    using removeLecture_Responded [of env w1 req' r2 w2] by auto
  from i have "i < length (lectures c1)"
    by (simp add: findIndex_Some)
  with l2 len1 have "length (lectures c2) = length (lectures c0)"
    by (simp add: length_splice1)
  with c2 n2 l show ?thesis by simp
qed

theorem add_then_remove_lecture_witness:
  "find_course ''c1'' (courses algebra_world) = Some algebra
   \<and> addLectureToCourseById accepting_env algebra_world lecture_request
     = (Responded (Response 200 True ''Course lecture added successfully''
          (With_course lectured_algebra)), lectured_world)
   \<and> lecture_id (last (lectures lectured_algebra)) = ''idc''
   \<and> removeLectureFromCourse accepting_env lectured_world removal_request
     = (Responded (Response 200 True ''Course lecture removed successfully'' No_payload),
        algebra_world\<lparr>destroy_calls := [(None, ''video'')]\<rparr>)
   \<and> (\<exists>c2. find_course ''c1'' (courses (algebra_world\<lparr>destroy_calls := [(None, ''video'')]\<rparr>)) = Some c2
         \<and> length (lectures c2) = 0 \<and> numberOfLectures c2 = 0)"
  using add_then_remove_lecture [of lecture_request algebra_world algebra accepting_env
      "Response 200 True ''Course lecture added successfully'' (With_course lectured_algebra)"
      lectured_world lectured_algebra removal_request
      "Response 200 True ''Course lecture removed successfully'' No_payload"
      "algebra_world\<lparr>destroy_calls := [(None, ''video'')]\<rparr>"]
  by (simp add: example_defs handler_defs)

text \<open>
  C8. On an existing course, a remove lecture request whose (non-empty) \<open>lectureId\<close> is
  the id of none of the course's lectures is answered with "Lecture does not exist." and
  status 404, and nothing changes: the course, its lecture list and its count are as they
  were.
\<close>

theorem removeLecture_unknown_lecture:
  assumes "find_course cid (courses w) = Some c" and "cid \<noteq> []" and "lid \<noteq> []"
    and "query_courseId req = Some cid" and "query_lectureId req = Some lid"
    and "\<forall>l\<in>set (lectures c). lecture_id l \<noteq> lid"
  shows "removeLectureFromCourse env w req =
           (Next_error (ApiError ''Lecture does not exist.'' 404), w)"
proof -
  from assms(6) have "findIndex (\<lambda>l. lecture_id l = lid) (lectures c) = None"
    by (simp add: findIndex_None)
  with assms(1-5) show ?thesis
    by (simp add: removeLectureFromCourse_def Course_findById_found)
qed

theorem removeLecture_unknown_lecture_witness:
  "removeLectureFromCourse accepting_env lectured_world
     (blank_request\<lparr>query_courseId := Some ''c1'', query_lectureId := Some ''nope''\<rparr>)
   = (Next_error (ApiError ''Lecture does not exist.'' 404), lectured_world)"
  using removeLecture_unknown_lecture [of "''c1''" lectured_world lectured_algebra "''nope''"
      "blank_request\<lparr>query_courseId := Some ''c1'', query_lectureId := Some ''nope''\<rparr>"
      accepting_env]
  by (simp add: example_defs find_course_def)

text \<open>
  C10. A successful remove lecture has issued exactly one destroy call, with the
  \<open>public_id\<close> of the lecture found and the resource type \<open>video\<close>, whatever that public
  id is (\<open>None\<close>, that is \<^verbatim>\<open>undefined\<close>, for a lecture added without a file). The call
  comes before the list is touched: when the destroy throws, the call has been issued and
  the collection is unchanged.
\<close>

theorem removeLecture_destroys_asset:
  "(removeLectureFromCourse env w req = (Responded r, w') \<longrightarrow>
      (\<exists>cid lid c j. query_courseId req = Some cid \<and> query_lectureId req = Some lid \<and>
         find_course cid (courses w) = Some c \<and>
         findIndex (\<lambda>l. lecture_id l = lid) (lectures c) = Some j \<and>
         destroy_calls w' =
           destroy_calls w @ [(public_id (lecture (lectures c ! j)), ''video'')]))
   \<and> (query_courseId req = Some cid' \<and> cid' \<noteq> [] \<and>
       query_lectureId req = Some lid' \<and> lid' \<noteq> [] \<and>
       find_course cid' (courses w) = Some course \<and>
       findIndex (\<lambda>l. lecture_id l = lid') (lectures course) = Some i \<and>
       cloud_destroy env (public_id (lecture (lectures course ! i))) ''video'' = Some e \<longrightarrow>
       removeLectureFromCourse env w req =
         (Rejected e,
          w\<lparr>destroy_calls :=
              destroy_calls w @ [(public_id (lecture (lectures course ! i)), ''video'')]\<rparr>))"
proof (intro conjI impI)
  assume "removeLectureFromCourse env w req = (Responded r, w')"
  then show "\<exists>cid lid c j. query_courseId req = Some cid \<and> query_lectureId req = Some lid \<and>
         find_course cid (courses w) = Some c \<and>
         findIndex (\<lambda>l. lecture_id l = lid) (lectures c) = Some j \<and>
         destroy_calls w' =
           destroy_calls w @ [(public_id (lecture (lectures c ! j)), ''video'')]"
    using removeLecture_Responded [of env w req r w'] by blast
next
  assume "query_courseId req = Some cid' \<and> cid' \<noteq> [] \<and>
       query_lectureId req = Some lid' \<and> lid' \<noteq> [] \<and>
       find_course cid' (courses w) = Some course \<and>
       findIndex (\<lambda>l. lecture_id l = lid') (lectures course) = Some i \<and>
       cloud_destroy env (public_id (lecture (lectures course ! i))) ''video'' = Some e"
  then show "removeLectureFromCourse env w req =
         (Rejected e,
          w\<lparr>destroy_calls :=
              destroy_calls w @ [(public_id (lecture (lectures course ! i)), ''video'')]\<rparr>)"
    by (simp add: removeLectureFromCourse_def Course_findById_found Let_def)
qed


theorem removeLecture_destroys_asset_witness:
  "removeLectureFromCourse accepting_env lectured_world removal_request
     = (Responded (Response 200 True ''Course lecture removed successfully'' No_payload),
        algebra_world\<lparr>destroy_calls := [(None, ''video'')]\<rparr>)
   \<and> public_id (lecture (lectures lectured_algebra ! 0)) = None
   \<and> destroy_calls (algebra_world\<lparr>destroy_calls := [(None, ''video'')]\<rparr>)
       = destroy_calls lectured_world @ [(None, ''video'')]
   \<and> removeLectureFromCourse failing_destroy_env lectured_world removal_request
     = (Rejected (JsError ''Error'' None), lectured_world\<lparr>destroy_calls := [(None, ''video'')]\<rparr>)"
  using removeLecture_destroys_asset [of accepting_env lectured_world removal_request
      "Response 200 True ''Course lecture removed successfully'' No_payload"
      "algebra_world\<lparr>destroy_calls := [(None, ''video'')]\<rparr>"]
    removeLecture_destroys_asset [of failing_destroy_env
      lectured_world removal_request _ _ "''c1''" "''idc''" lectured_algebra 0
      "JsError ''Error'' None"]
  by (simp add: example_defs handler_defs)

end
